theory Spec2Isabelle
  imports Main
begin

section \<open>Values, errors and field descriptors\<close>

text \<open>
  The object-mapping property types (\<^verbatim>\<open>base\<close>, \<^verbatim>\<open>string\<close>, \<^verbatim>\<open>array\<close>,
  \<^verbatim>\<open>puter-uuid\<close>, \<^verbatim>\<open>reference\<close>, \<^verbatim>\<open>puter-node\<close>, ...) are a table of JavaScript
  functions over untyped values. The embedding keeps the values untyped: one datatype of
  JavaScript values, with \<^verbatim>\<open>typeof\<close> and truthiness written out.

  An error object is a value too (\<^verbatim>\<open>validate\<close> returns one for a soft failure and throws
  one for a hard failure), so errors are defined first and embedded in the values.
  \<^verbatim>\<open>APIError.create(code, null, fields)\<close> is kept as the code and the list of fields it was
  given; a field holds a string, a number or \<^verbatim>\<open>undefined\<close>.
\<close>

datatype prim = PUndefined | PNum int | PStr string

datatype error =
    OMTypeError string string
  | APIError string "(string \<times> prim) list"
  | Error string
  | TypeError string

text \<open>
  \<^verbatim>\<open>FSNodeContext\<close> and \<^verbatim>\<open>Entity\<close> are classes of other modules. Of a filesystem
  node the types read \<^verbatim>\<open>mysql_id\<close> and \<^verbatim>\<open>get('path')\<close>; of an entity
  \<^verbatim>\<open>private_meta.mysql_id\<close>.
\<close>

record fsnode =
  node_uid :: string
  node_mysql_id :: "int option"
  node_path :: string

record entity =
  private_meta_mysql_id :: int

text \<open>
  Numbers are integers here, with \<^verbatim>\<open>NaN\<close> apart: the functions below only look at the
  type of a number, at whether it is zero, and at lengths.
\<close>

datatype jsval =
    Undefined
  | Null
  | Bool bool
  | Num int
  | NaN
  | Str string
  | Arr "jsval list"
  | Obj "(string \<times> jsval) list"
  | EntityV entity
  | FSNodeContext fsnode
  | ErrorObj error

fun js_typeof :: "jsval \<Rightarrow> string" where
  "js_typeof Undefined = ''undefined''"
| "js_typeof Null = ''object''"
| "js_typeof (Bool b) = ''boolean''"
| "js_typeof (Num n) = ''number''"
| "js_typeof NaN = ''number''"
| "js_typeof (Str s) = ''string''"
| "js_typeof (Arr xs) = ''object''"
| "js_typeof (Obj kvs) = ''object''"
| "js_typeof (EntityV e) = ''object''"
| "js_typeof (FSNodeContext n) = ''object''"
| "js_typeof (ErrorObj e) = ''object''"

text \<open>\<^verbatim>\<open>!! value\<close>: the falsy values are undefined, null, false, 0, NaN and the empty string.\<close>

fun truthy :: "jsval \<Rightarrow> bool" where
  "truthy Undefined = False"
| "truthy Null = False"
| "truthy (Bool b) = b"
| "truthy (Num n) = (n \<noteq> 0)"
| "truthy NaN = False"
| "truthy (Str s) = (s \<noteq> [])"
| "truthy (Arr xs) = True"
| "truthy (Obj kvs) = True"
| "truthy (EntityV e) = True"
| "truthy (FSNodeContext n) = True"
| "truthy (ErrorObj e) = True"

text \<open>A call either returns a value or throws (an \<^verbatim>\<open>async\<close> function: resolves or rejects).\<close>

datatype 'a outcome = Returns 'a | Throws error

text \<open>
  A regular expression is kept as its source text (it is printed in an error message)
  and the set of strings it matches.
\<close>

datatype regexp = RegExp string "string \<Rightarrow> bool"

fun regexp_source :: "regexp \<Rightarrow> string" where
  "regexp_source (RegExp src m) = src"

fun js_match :: "string \<Rightarrow> regexp \<Rightarrow> bool" where
  "js_match s (RegExp src m) = m s"

text \<open>
  The field descriptor: every constraint is optional, \<open>None\<close> is an absent property
  (\<^verbatim>\<open>hasOwnProperty\<close> false, reading it gives \<^verbatim>\<open>undefined\<close>).
\<close>

record descriptor =
  maxlen :: "int option"
  minlen :: "int option"
  regex :: "regexp option"
  mod_opt :: "int option"
  prefix :: "string option"
  service :: "string option"
  debug :: bool
  fs_permission :: "string option"

definition no_constraints :: descriptor where
  "no_constraints = \<lparr> maxlen = None, minlen = None, regex = None, mod_opt = None,
     prefix = None, service = None, debug = False, fs_permission = None \<rparr>"

text \<open>Reading a numeric property that may be absent, as it lands in an error's fields.\<close>

fun prim_of :: "int option \<Rightarrow> prim" where
  "prim_of None = PUndefined"
| "prim_of (Some n) = PNum n"

section \<open>string\<close>

text \<open>
  \<^verbatim>\<open>string.adapt\<close>: undefined and null become the empty string, a string is returned
  as it is, anything else is a type error carrying \<^verbatim>\<open>typeof value\<close>.
\<close>

definition string_adapt :: "jsval \<Rightarrow> jsval outcome" where
  "string_adapt v =
     (if v = Undefined then Returns (Str [])
      else if v = Null then Returns (Str [])
      else if js_typeof v \<noteq> ''string'' then Throws (OMTypeError ''string'' (js_typeof v))
      else Returns v)"

text \<open>
  \<^verbatim>\<open>descriptor.hasOwnProperty(k) && value.length > descriptor[k]\<close>, the guard of both
  length checks of the source.
\<close>

fun has_and_length_gt :: "int option \<Rightarrow> nat \<Rightarrow> bool" where
  "has_and_length_gt None len = False"
| "has_and_length_gt (Some lim) len = (int len > lim)"

text \<open>
  \<^verbatim>\<open>string.validate\<close>. The checks run in the order of the source: type, maxlen,
  minlen, regex. A type or regex failure is returned, a length failure is thrown. The
  minlen branch is the source's: it compares with "greater than" and reports
  \<^verbatim>\<open>descriptor.maxlen\<close> as \<^verbatim>\<open>min_length\<close>.
\<close>

definition string_validate :: "jsval \<Rightarrow> string \<Rightarrow> descriptor \<Rightarrow> jsval outcome" where
  "string_validate v name d =
     (case v of
        Str s \<Rightarrow>
          if has_and_length_gt (maxlen d) (length s)
          then Throws (APIError ''field_too_long''
                 [(''key'', PStr name), (''max_length'', prim_of (maxlen d))])
          else if has_and_length_gt (minlen d) (length s)
          then Throws (APIError ''field_too_short''
                 [(''key'', PStr name), (''min_length'', prim_of (maxlen d))])
          else (case regex d of
                  Some r \<Rightarrow>
                    if \<not> js_match s r
                    then Returns (ErrorObj (Error (''string does not match regex '' @ regexp_source r)))
                    else Returns (Bool True)
                | None \<Rightarrow> Returns (Bool True))
      | _ \<Rightarrow> Returns (ErrorObj (OMTypeError ''string'' (js_typeof v))))"

section \<open>array\<close>

text \<open>
  \<^verbatim>\<open>value.length % descriptor.mod !== 0\<close>: the remainder of a non-negative length takes
  the sign of the length, and a zero modulus gives \<^verbatim>\<open>NaN\<close>, which is not 0.
\<close>

fun length_rem_nonzero :: "nat \<Rightarrow> int \<Rightarrow> bool" where
  "length_rem_nonzero len m = (if m = 0 then True else int len mod \<bar>m\<bar> \<noteq> 0)"

text \<open>
  \<^verbatim>\<open>array.validate\<close>: type, maxlen, minlen (the same branch as in \<^verbatim>\<open>string\<close>), then the
  modulus of the length.
\<close>

definition array_validate :: "jsval \<Rightarrow> string \<Rightarrow> descriptor \<Rightarrow> jsval outcome" where
  "array_validate v name d =
     (case v of
        Arr xs \<Rightarrow>
          if has_and_length_gt (maxlen d) (length xs)
          then Throws (APIError ''field_too_long''
                 [(''key'', PStr name), (''max_length'', prim_of (maxlen d))])
          else if has_and_length_gt (minlen d) (length xs)
          then Throws (APIError ''field_too_short''
                 [(''key'', PStr name), (''min_length'', prim_of (maxlen d))])
          else (case mod_opt d of
                  Some m \<Rightarrow>
                    if length_rem_nonzero (length xs) m
                    then Throws (APIError ''field_invalid'' [(''key'', PStr name), (''mod'', PNum m)])
                    else Returns (Bool True)
                | None \<Rightarrow> Returns (Bool True))
      | _ \<Rightarrow> Returns (ErrorObj (OMTypeError ''array'' (js_typeof v))))"

section \<open>Imported helpers, the context and its services\<close>

text \<open>
  \<^verbatim>\<open>is_valid_uuid4\<close>, \<^verbatim>\<open>is_valid_uuid\<close> (helpers) and \<^verbatim>\<open>is_valid_path\<close>
  (filesystem/validation) are imported by the module and defined elsewhere: they are
  parameters of the functions that call them.
\<close>

record helpers =
  is_valid_uuid4 :: "string \<Rightarrow> bool"
  is_valid_uuid :: "string \<Rightarrow> bool"
  is_valid_path :: "string \<Rightarrow> bool"

text \<open>The three selectors of filesystem/node/selectors, by their constructor arguments.\<close>

datatype selector =
    NodeUIDSelector string
  | NodeInternalIDSelector string int
  | NodePathSelector string

record user =
  username :: string

datatype actor = Actor string

text \<open>
  The services the types reach through \<^verbatim>\<open>Context.get('services').get(name)\<close>, each with
  the methods the types call on it: an entity service (\<^verbatim>\<open>read\<close>), the filesystem
  service (\<^verbatim>\<open>node\<close>, called with a selector or with \<^verbatim>\<open>undefined\<close>) and the
  access-control service (\<^verbatim>\<open>check\<close>, \<^verbatim>\<open>get_safe_acl_error\<close>). Every method may throw.
\<close>

datatype service =
    EntityService "jsval \<Rightarrow> jsval outcome"
  | FilesystemService "selector option \<Rightarrow> jsval outcome"
  | ACLService "actor option \<Rightarrow> jsval \<Rightarrow> string \<Rightarrow> bool outcome"
               "actor option \<Rightarrow> jsval \<Rightarrow> string \<Rightarrow> jsval outcome"

record ctx =
  ctx_user :: "user option"
  ctx_actor :: "actor option"
  ctx_services :: "string \<Rightarrow> service option"

text \<open>
  The calls a function makes on the services are part of its result: a function returns
  the list of service calls it made, in order, with its outcome. (\<^verbatim>\<open>console.log\<close> and
  \<^verbatim>\<open>debugger\<close> are left out.)
\<close>

datatype call =
    ReadCall string jsval
  | NodeCall "selector option"
  | CheckCall "actor option" jsval string
  | SafeErrorCall "actor option" jsval string

text \<open>String primitives of the source.\<close>

definition startsWith :: "string \<Rightarrow> string \<Rightarrow> bool" where
  "startsWith s p = (take (length p) s = p)"

text \<open>\<^verbatim>\<open>cs.includes(value[0])\<close>: \<^verbatim>\<open>value[0]\<close> of the empty string is undefined.\<close>

fun first_char_in :: "string \<Rightarrow> char list \<Rightarrow> bool" where
  "first_char_in [] cs = False"
| "first_char_in (c # s) cs = (c \<in> set cs)"

text \<open>\<^verbatim>\<open>descriptor.prefix + '-'\<close>: an absent prefix is printed as \<^verbatim>\<open>undefined\<close>.\<close>

fun prefix_hyphen :: "string option \<Rightarrow> string" where
  "prefix_hyphen None = ''undefined-''"
| "prefix_hyphen (Some p) = p @ ''-''"

section \<open>puter-uuid\<close>

text \<open>
  \<^verbatim>\<open>puter-uuid.validate\<close>: a value without the prefix is a returned error; otherwise
  the answer of \<^verbatim>\<open>is_valid_uuid\<close> on the rest. A value that is not a string has no
  \<^verbatim>\<open>startsWith\<close>.
\<close>

definition puter_uuid_validate :: "helpers \<Rightarrow> jsval \<Rightarrow> descriptor \<Rightarrow> jsval outcome" where
  "puter_uuid_validate h v d =
     (case v of
        Str s \<Rightarrow>
          if \<not> startsWith s (prefix_hyphen (prefix d))
          then Returns (ErrorObj (Error (''UUID does not start with prefix '' @ prefix_hyphen (prefix d))))
          else Returns (Bool (is_valid_uuid h (drop (length (prefix_hyphen (prefix d))) s)))
      | _ \<Rightarrow> Throws (TypeError ''value.startsWith is not a function''))"

text \<open>
  \<^verbatim>\<open>puter-uuid.factory\<close>: the second argument is the string \<^verbatim>\<open>require('uuid').v4()\<close>
  returned in this call.
\<close>

definition puter_uuid_factory :: "descriptor \<Rightarrow> string \<Rightarrow> string" where
  "puter_uuid_factory d uuid = prefix_hyphen (prefix d) @ uuid"

text \<open>The regular expression \<^verbatim>\<open>^app-[0-9a-f-]{36}$\<close> as a predicate on strings.\<close>

definition hex_or_hyphen :: "char \<Rightarrow> bool" where
  "hex_or_hyphen c = (c \<in> set ''0123456789abcdef-'')"

definition matches_app_uuid :: "string \<Rightarrow> bool" where
  "matches_app_uuid s =
     (take 4 s = ''app-'' \<and> length (drop 4 s) = 36 \<and> list_all hex_or_hyphen (drop 4 s))"

section \<open>reference\<close>

fun instanceof_Entity :: "jsval \<Rightarrow> bool" where
  "instanceof_Entity (EntityV e) = True"
| "instanceof_Entity v = False"

text \<open>\<^verbatim>\<open>! descriptor.service\<close>: an absent service name and the empty name are both falsy.\<close>

fun no_service :: "string option \<Rightarrow> bool" where
  "no_service None = True"
| "no_service (Some n) = (n = [])"

text \<open>
  \<^verbatim>\<open>svc.read(value)\<close> on the service registered under a name. A name with no service,
  or with a service that has no \<^verbatim>\<open>read\<close>, makes the call itself fail.
\<close>

fun svc_read :: "ctx \<Rightarrow> string option \<Rightarrow> jsval \<Rightarrow> call list \<times> jsval outcome" where
  "svc_read c None v = ([], Throws (TypeError ''svc.read is not a function''))"
| "svc_read c (Some n) v =
     (case ctx_services c n of
        Some (EntityService read) \<Rightarrow> ([ReadCall n v], read v)
      | _ \<Rightarrow> ([], Throws (TypeError ''svc.read is not a function'')))"

text \<open>
  \<^verbatim>\<open>reference.adapt\<close>: without a service the value is returned; a falsy value becomes
  null; an Entity is returned; anything else is read from the service. (The
  \<^verbatim>\<open>descriptor.debug\<close> branch only stops in a debugger.)
\<close>

definition reference_adapt :: "ctx \<Rightarrow> jsval \<Rightarrow> descriptor \<Rightarrow> call list \<times> jsval outcome" where
  "reference_adapt c v d =
     (if no_service (service d) then ([], Returns v)
      else if \<not> truthy v then ([], Returns Null)
      else if instanceof_Entity v then ([], Returns v)
      else svc_read c (service d) v)"

section \<open>puter-node\<close>

text \<open>\<^verbatim>\<open>svc_fs.node(selector)\<close> on the service registered as \<^verbatim>\<open>filesystem\<close>.\<close>

definition svc_fs_node :: "ctx \<Rightarrow> selector option \<Rightarrow> call list \<times> jsval outcome" where
  "svc_fs_node c sel =
     (case ctx_services c ''filesystem'' of
        Some (FilesystemService node) \<Rightarrow> ([NodeCall sel], node sel)
      | _ \<Rightarrow> ([], Throws (TypeError ''svc_fs.node is not a function'')))"

text \<open>
  The \<^verbatim>\<open>~\<close> branch of \<^verbatim>\<open>puter-node.adapt\<close>: a value that starts with \<^verbatim>\<open>~\<close> needs
  a user in the context, and becomes \<^verbatim>\<open>`/${user.username}` + value.slice(1)\<close>; any
  other value is left as it is.
\<close>

definition expand_home :: "ctx \<Rightarrow> string \<Rightarrow> string outcome" where
  "expand_home c s =
     (if startsWith s ''~''
      then (case ctx_user c of
              None \<Rightarrow> Throws (Error ''Cannot use ~ without a user'')
            | Some u \<Rightarrow> Returns (''/'' @ username u @ drop 1 s))
      else Returns s)"

text \<open>
  \<^verbatim>\<open>puter-node.adapt\<close>. Null and a node are returned as they are; a value that is not
  a string gives \<^verbatim>\<open>undefined\<close>. A string that does not begin with \<^verbatim>\<open>/\<close>, \<^verbatim>\<open>.\<close> or
  \<^verbatim>\<open>~\<close> gets a UID selector when it is a version 4 UUID, and no selector otherwise
  (\<^verbatim>\<open>selector\<close> stays undefined). Any other string is a path: a leading \<^verbatim>\<open>~\<close> is replaced
  by \<^verbatim>\<open>/\<close> and the user's name, the path is checked, and it gets a path selector. The
  last statement of the source looks the selector up, whatever it is.
\<close>

definition puter_node_adapt :: "helpers \<Rightarrow> ctx \<Rightarrow> jsval \<Rightarrow> string \<Rightarrow> call list \<times> jsval outcome" where
  "puter_node_adapt h c v name =
     (case v of
        Null \<Rightarrow> ([], Returns Null)
      | FSNodeContext n \<Rightarrow> ([], Returns v)
      | Str s \<Rightarrow>
          if \<not> first_char_in s ''/.~''
          then svc_fs_node c (if is_valid_uuid4 h s then Some (NodeUIDSelector s) else None)
          else
            (case expand_home c s of
               Throws e \<Rightarrow> ([], Throws e)
             | Returns p \<Rightarrow>
                 if \<not> is_valid_path h p
                 then ([], Throws (APIError ''field_invalid''
                         [(''key'', PStr name), (''expected'', PStr ''unix-style path or UUID'')]))
                 else svc_fs_node c (Some (NodePathSelector p)))
      | _ \<Rightarrow> ([], Returns Undefined))"

text \<open>
  \<^verbatim>\<open>puter-node.validate\<close>. Null is valid (nothing is returned). The root is refused
  before the access check; otherwise \<^verbatim>\<open>check\<close> is asked, with the permission of the
  descriptor or \<^verbatim>\<open>see\<close>, and a refusal returns what \<^verbatim>\<open>get_safe_acl_error\<close> gives.
  A value that is neither null nor a node has no \<^verbatim>\<open>get\<close>.
\<close>

fun permission_of :: "descriptor \<Rightarrow> string" where
  "permission_of d = (case fs_permission d of None \<Rightarrow> ''see'' | Some p \<Rightarrow> p)"

definition puter_node_validate :: "ctx \<Rightarrow> jsval \<Rightarrow> string \<Rightarrow> descriptor \<Rightarrow> call list \<times> jsval outcome" where
  "puter_node_validate c v name d =
     (case v of
        Null \<Rightarrow> ([], Returns Undefined)
      | FSNodeContext n \<Rightarrow>
          if node_path n = ''/'' then ([], Returns (ErrorObj (APIError ''forbidden'' [])))
          else
            (case ctx_services c ''acl'' of
               Some (ACLService check get_safe_acl_error) \<Rightarrow>
                 (case check (ctx_actor c) v (permission_of d) of
                    Throws e \<Rightarrow> ([CheckCall (ctx_actor c) v (permission_of d)], Throws e)
                  | Returns ok \<Rightarrow>
                      if \<not> ok
                      then ([CheckCall (ctx_actor c) v (permission_of d),
                             SafeErrorCall (ctx_actor c) v (permission_of d)],
                            get_safe_acl_error (ctx_actor c) v (permission_of d))
                      else ([CheckCall (ctx_actor c) v (permission_of d)], Returns Undefined))
             | _ \<Rightarrow> ([], Throws (TypeError ''svc_acl.check is not a function'')))
      | _ \<Rightarrow> ([], Throws (TypeError ''value.get is not a function'')))"

section \<open>Vocabulary of the properties and sample collaborators\<close>

text \<open>
  The first segment of an absolute path: what stands between the leading \<^verbatim>\<open>/\<close> and the
  next one.
\<close>

definition first_segment :: "string \<Rightarrow> string" where
  "first_segment p = takeWhile (\<lambda>ch. ch \<noteq> CHR ''/'') (drop 1 p)"

text \<open>
  Sample collaborators, to run the functions on concrete inputs. The sample helpers take
  any 36 characters of lower-case hexadecimal digits and hyphens for a UUID, and any
  string that begins with \<^verbatim>\<open>/\<close> or \<^verbatim>\<open>.\<close> for a path. The sample filesystem service
  answers a path selector with a node of that path and refuses an undefined selector;
  the sample access-control service gives a fixed answer; the sample entity service
  \<^verbatim>\<open>es:app\<close> reads every key as the entity 1.
\<close>

definition sample_helpers :: helpers where
  "sample_helpers =
     \<lparr> is_valid_uuid4 = (\<lambda>s. length s = 36 \<and> list_all hex_or_hyphen s),
       is_valid_uuid = (\<lambda>s. length s = 36 \<and> list_all hex_or_hyphen s),
       is_valid_path = (\<lambda>s. first_char_in s ''/.'') \<rparr>"

fun sample_fs_node :: "selector option \<Rightarrow> jsval outcome" where
  "sample_fs_node (Some (NodePathSelector p)) =
     Returns (FSNodeContext \<lparr> node_uid = ''n-1'', node_mysql_id = Some 1, node_path = p \<rparr>)"
| "sample_fs_node (Some (NodeUIDSelector u)) =
     Returns (FSNodeContext \<lparr> node_uid = u, node_mysql_id = Some 2, node_path = ''/alice/file'' \<rparr>)"
| "sample_fs_node (Some (NodeInternalIDSelector st i)) =
     Returns (FSNodeContext \<lparr> node_uid = ''n-3'', node_mysql_id = Some i, node_path = ''/alice/file'' \<rparr>)"
| "sample_fs_node None = Throws (Error ''no selector'')"

definition sample_acl :: "bool \<Rightarrow> service" where
  "sample_acl answer =
     ACLService (\<lambda>a v p. Returns answer)
                (\<lambda>a v p. Returns (ErrorObj (APIError ''subject_does_not_exist'' [])))"

definition sample_services :: "bool \<Rightarrow> string \<Rightarrow> service option" where
  "sample_services answer n =
     (if n = ''filesystem'' then Some (FilesystemService sample_fs_node)
      else if n = ''acl'' then Some (sample_acl answer)
      else if n = ''es:app''
      then Some (EntityService (\<lambda>v. Returns (EntityV \<lparr> private_meta_mysql_id = 1 \<rparr>)))
      else None)"

definition sample_ctx :: "bool \<Rightarrow> ctx" where
  "sample_ctx answer =
     \<lparr> ctx_user = Some \<lparr> username = ''alice'' \<rparr>,
       ctx_actor = Some (Actor ''alice''),
       ctx_services = sample_services answer \<rparr>"

definition root_node :: fsnode where
  "root_node = \<lparr> node_uid = ''n-0'', node_mysql_id = Some 0, node_path = ''/'' \<rparr>"

section \<open>Basic facts\<close>

lemma js_typeof_string_iff: "js_typeof v = ''string'' \<longleftrightarrow> (\<exists>s. v = Str s)"
  by (cases v) simp_all

lemma startsWith_append: "startsWith (p @ s) p"
  by (simp add: startsWith_def)

section \<open>string.adapt\<close>

text \<open>
  C5. \<^verbatim>\<open>string.adapt\<close> maps undefined and null to the empty string and returns a string
  unchanged; every other value makes it throw the type error that reports the expected
  type \<^verbatim>\<open>string\<close> and the actual \<^verbatim>\<open>typeof\<close> of the value.
\<close>

theorem string_adapt_spec:
  "string_adapt Undefined = Returns (Str '''')
   \<and> string_adapt Null = Returns (Str '''')
   \<and> string_adapt (Str s) = Returns (Str s)
   \<and> (v \<noteq> Undefined \<and> v \<noteq> Null \<and> (\<forall>t. v \<noteq> Str t)
        \<longrightarrow> string_adapt v = Throws (OMTypeError ''string'' (js_typeof v)))"
  by (simp add: string_adapt_def js_typeof_string_iff)

text \<open>At the number 42 the error reports \<^verbatim>\<open>number\<close>.\<close>

theorem string_adapt_spec_witness:
  "string_adapt (Num 42) = Throws (OMTypeError ''string'' ''number'')
   \<and> string_adapt (Str ''hello'') = Returns (Str ''hello'')"
  using string_adapt_spec [of "''hello''" "Num 42"] by simp

section \<open>Length limits of string and array\<close>

text \<open>
  C4. With a configured \<^verbatim>\<open>maxlen\<close>, \<^verbatim>\<open>validate\<close> of a string or an array longer than
  the limit throws \<^verbatim>\<open>field_too_long\<close> with the field's key and the limit; in particular
  \<^verbatim>\<open>array.validate([1,2,3,4], {maxlen:3})\<close> throws it with limit 3.
\<close>

theorem validate_maxlen:
  "(maxlen d = Some m \<and> m < int (length s) \<longrightarrow>
      string_validate (Str s) name d =
        Throws (APIError ''field_too_long'' [(''key'', PStr name), (''max_length'', PNum m)]))
   \<and> (maxlen d = Some m \<and> m < int (length xs) \<longrightarrow>
      array_validate (Arr xs) name d =
        Throws (APIError ''field_too_long'' [(''key'', PStr name), (''max_length'', PNum m)]))
   \<and> array_validate (Arr [Num 1, Num 2, Num 3, Num 4]) name (d\<lparr>maxlen := Some 3\<rparr>) =
        Throws (APIError ''field_too_long'' [(''key'', PStr name), (''max_length'', PNum 3)])"
  by (simp add: string_validate_def array_validate_def)

text \<open>A six-character title against a limit of 5, and two tags against a limit of 1.\<close>

theorem validate_maxlen_witness:
  "string_validate (Str ''abcdef'') ''title'' (no_constraints\<lparr>maxlen := Some 5\<rparr>) =
     Throws (APIError ''field_too_long'' [(''key'', PStr ''title''), (''max_length'', PNum 5)])
   \<and> array_validate (Arr [Null, Null]) ''tags'' (no_constraints\<lparr>maxlen := Some 1\<rparr>) =
     Throws (APIError ''field_too_long'' [(''key'', PStr ''tags''), (''max_length'', PNum 1)])"
  using validate_maxlen [where d = "no_constraints\<lparr>maxlen := Some 5\<rparr>" and m = 5
          and s = "''abcdef''" and name = "''title''"]
        validate_maxlen [where d = "no_constraints\<lparr>maxlen := Some 1\<rparr>" and m = 1
          and xs = "[Null, Null]" and name = "''tags''"]
  by simp

text \<open>
  C1. The minimum-length branch of both \<^verbatim>\<open>validate\<close> functions, run with no other
  constraint: a value shorter than \<^verbatim>\<open>minlen\<close> is accepted, and a value longer than
  \<^verbatim>\<open>minlen\<close> throws \<^verbatim>\<open>field_too_short\<close> whose \<^verbatim>\<open>min_length\<close> is the absent
  \<^verbatim>\<open>maxlen\<close>. The branch tests \<^verbatim>\<open>value.length > descriptor.minlen\<close> and reports
  \<^verbatim>\<open>descriptor.maxlen\<close>.
\<close>

theorem minlen_check_evaluated:
  "string_validate (Str ''ab'') ''title'' (no_constraints\<lparr>minlen := Some 3\<rparr>) = Returns (Bool True)
   \<and> string_validate (Str ''abcd'') ''title'' (no_constraints\<lparr>minlen := Some 3\<rparr>) =
       Throws (APIError ''field_too_short'' [(''key'', PStr ''title''), (''min_length'', PUndefined)])
   \<and> array_validate (Arr [Num 1]) ''tags'' (no_constraints\<lparr>minlen := Some 2\<rparr>) = Returns (Bool True)
   \<and> array_validate (Arr [Num 1, Num 2, Num 3]) ''tags'' (no_constraints\<lparr>minlen := Some 2\<rparr>) =
       Throws (APIError ''field_too_short'' [(''key'', PStr ''tags''), (''min_length'', PUndefined)])"
  by (simp add: string_validate_def array_validate_def no_constraints_def)


section \<open>puter-uuid\<close>

text \<open>
  C8. With the prefix \<^verbatim>\<open>app\<close> configured, \<^verbatim>\<open>puter-uuid.validate\<close> returns true for
  \<^verbatim>\<open>app-\<close> followed by a UUID that \<^verbatim>\<open>is_valid_uuid\<close> accepts, and returns (does not
  throw) an error for a value that does not start with \<^verbatim>\<open>app-\<close>. The factory returns the
  prefix, a hyphen and the UUID generated in the call; when that UUID is 36 characters
  of lower-case hexadecimal digits and hyphens, the result matches
  \<^verbatim>\<open>^app-[0-9a-f-]{36}$\<close>.
\<close>

theorem puter_uuid_app_prefix:
  "(prefix d = Some ''app'' \<and> is_valid_uuid h u \<longrightarrow>
      puter_uuid_validate h (Str (''app-'' @ u)) d = Returns (Bool True))
   \<and> (prefix d = Some ''app'' \<and> \<not> startsWith s ''app-'' \<longrightarrow>
      puter_uuid_validate h (Str s) d =
        Returns (ErrorObj (Error ''UUID does not start with prefix app-'')))
   \<and> (prefix d = Some ''app'' \<longrightarrow> puter_uuid_factory d g = ''app-'' @ g)
   \<and> (prefix d = Some ''app'' \<and> length g = 36 \<and> list_all hex_or_hyphen g \<longrightarrow>
      matches_app_uuid (puter_uuid_factory d g))"
proof -
  have pre: "startsWith (''app-'' @ u) ''app-''"
    by (rule startsWith_append)
  show ?thesis
    using pre by (simp add: puter_uuid_validate_def puter_uuid_factory_def matches_app_uuid_def)
qed

text \<open>
  The identifier of the emulator application, \<^verbatim>\<open>app-fbbdb72b-ad08-4cb4-86a1-de0f27cf2e1e\<close>,
  is accepted; the same UUID under the prefix \<^verbatim>\<open>other\<close> is a returned error.
\<close>

theorem puter_uuid_app_prefix_witness:
  "puter_uuid_validate sample_helpers (Str ''app-fbbdb72b-ad08-4cb4-86a1-de0f27cf2e1e'')
      (no_constraints\<lparr>prefix := Some ''app''\<rparr>) = Returns (Bool True)
   \<and> puter_uuid_validate sample_helpers (Str ''other-fbbdb72b-ad08-4cb4-86a1-de0f27cf2e1e'')
      (no_constraints\<lparr>prefix := Some ''app''\<rparr>) =
        Returns (ErrorObj (Error ''UUID does not start with prefix app-''))
   \<and> puter_uuid_factory (no_constraints\<lparr>prefix := Some ''app''\<rparr>) ''fbbdb72b-ad08-4cb4-86a1-de0f27cf2e1e''
        = ''app-fbbdb72b-ad08-4cb4-86a1-de0f27cf2e1e''
   \<and> matches_app_uuid (puter_uuid_factory (no_constraints\<lparr>prefix := Some ''app''\<rparr>)
        ''fbbdb72b-ad08-4cb4-86a1-de0f27cf2e1e'')"
proof -
  let ?d = "no_constraints\<lparr>prefix := Some ''app''\<rparr>"
  let ?u = "''fbbdb72b-ad08-4cb4-86a1-de0f27cf2e1e''"
  let ?s = "''other-fbbdb72b-ad08-4cb4-86a1-de0f27cf2e1e''"
  have configured: "prefix ?d = Some ''app''"
    by simp
  have shape: "length ?u = 36 \<and> list_all hex_or_hyphen ?u"
    by (simp add: hex_or_hyphen_def)
  then have valid: "is_valid_uuid sample_helpers ?u"
    by (simp add: sample_helpers_def)
  have other: "\<not> startsWith ?s ''app-''"
    by (simp add: startsWith_def)
  have joined: "''app-'' @ ?u = ''app-fbbdb72b-ad08-4cb4-86a1-de0f27cf2e1e''"
    by simp
  from puter_uuid_app_prefix [where d = ?d and h = sample_helpers and u = ?u and s = ?s and g = ?u]
    configured shape valid other
  have "puter_uuid_validate sample_helpers (Str (''app-'' @ ?u)) ?d = Returns (Bool True)"
    and "puter_uuid_validate sample_helpers (Str ?s) ?d =
           Returns (ErrorObj (Error ''UUID does not start with prefix app-''))"
    and "puter_uuid_factory ?d ?u = ''app-'' @ ?u"
    and "matches_app_uuid (puter_uuid_factory ?d ?u)"
    by blast+
  then show ?thesis
    unfolding joined by blast
qed

section \<open>reference.adapt\<close>

text \<open>
  C9, as the source has it. Without a target service every value passes through
  unchanged. With a service: a falsy value (undefined, null, false, 0, NaN, the empty
  string) gives null and nothing is read; an Entity passes through unchanged; every other
  value is read from the target service, once, and the outcome of \<^verbatim>\<open>read\<close> is the
  outcome of \<^verbatim>\<open>adapt\<close>.
\<close>

theorem reference_adapt_cases:
  "(no_service (service d) \<longrightarrow> reference_adapt c v d = ([], Returns v))
   \<and> (\<not> no_service (service d) \<and> \<not> truthy v \<longrightarrow> reference_adapt c v d = ([], Returns Null))
   \<and> (\<not> no_service (service d) \<longrightarrow> reference_adapt c (EntityV e) d = ([], Returns (EntityV e)))
   \<and> (service d = Some n \<and> n \<noteq> [] \<and> truthy v \<and> \<not> instanceof_Entity v
        \<and> ctx_services c n = Some (EntityService read) \<longrightarrow>
      reference_adapt c v d = ([ReadCall n v], read v))"
  by (simp add: reference_adapt_def)

text \<open>The four cases at the key 7, the key 0 and the entity 5.\<close>

theorem reference_adapt_cases_witness:
  "reference_adapt (sample_ctx True) (Num 7) no_constraints = ([], Returns (Num 7))
   \<and> reference_adapt (sample_ctx True) (Num 0) (no_constraints\<lparr>service := Some ''es:app''\<rparr>) = ([], Returns Null)
   \<and> reference_adapt (sample_ctx True) (EntityV \<lparr> private_meta_mysql_id = 5 \<rparr>)
        (no_constraints\<lparr>service := Some ''es:app''\<rparr>) = ([], Returns (EntityV \<lparr> private_meta_mysql_id = 5 \<rparr>))
   \<and> reference_adapt (sample_ctx True) (Num 7) (no_constraints\<lparr>service := Some ''es:app''\<rparr>) =
        ([ReadCall ''es:app'' (Num 7)], Returns (EntityV \<lparr> private_meta_mysql_id = 1 \<rparr>))"
  using reference_adapt_cases [where d = no_constraints and c = "sample_ctx True" and v = "Num 7"]
        reference_adapt_cases [where d = "no_constraints\<lparr>service := Some ''es:app''\<rparr>"
          and c = "sample_ctx True" and v = "Num 0" and e = "\<lparr> private_meta_mysql_id = 5 \<rparr>"]
        reference_adapt_cases [where d = "no_constraints\<lparr>service := Some ''es:app''\<rparr>"
          and c = "sample_ctx True" and v = "Num 7" and n = "''es:app''"
          and read = "\<lambda>v. Returns (EntityV \<lparr> private_meta_mysql_id = 1 \<rparr>)"]
  by (simp add: no_constraints_def sample_ctx_def sample_services_def)

text \<open>
  With the service \<^verbatim>\<open>es:app\<close> configured, null is not an Entity, and reading it from
  the service would give the entity 1; \<^verbatim>\<open>adapt\<close> returns null and reads nothing.
\<close>

theorem reference_adapt_counterexample:
  "reference_adapt (sample_ctx True) Null (no_constraints\<lparr>service := Some ''es:app''\<rparr>) = ([], Returns Null)
   \<and> svc_read (sample_ctx True) (Some ''es:app'') Null =
        ([ReadCall ''es:app'' Null], Returns (EntityV \<lparr> private_meta_mysql_id = 1 \<rparr>))
   \<and> \<not> instanceof_Entity Null"
  by (simp add: reference_adapt_def sample_ctx_def sample_services_def)

section \<open>puter-node.validate\<close>

text \<open>
  C2. On a node whose path is \<^verbatim>\<open>/\<close>, \<^verbatim>\<open>puter-node.validate\<close> returns the
  \<^verbatim>\<open>forbidden\<close> error and asks the access-control service nothing. The result is the
  same in any two contexts, and so for any two access-control services registered in the
  same context.
\<close>

theorem puter_node_validate_root:
  "node_path n = ''/'' \<Longrightarrow>
     puter_node_validate c (FSNodeContext n) name d = ([], Returns (ErrorObj (APIError ''forbidden'' [])))
     \<and> puter_node_validate c (FSNodeContext n) name d = puter_node_validate c' (FSNodeContext n) name d
     \<and> (\<forall>acl acl'.
          puter_node_validate (c\<lparr>ctx_services := (ctx_services c)(''acl'' := acl)\<rparr>) (FSNodeContext n) name d
          = puter_node_validate (c\<lparr>ctx_services := (ctx_services c)(''acl'' := acl')\<rparr>) (FSNodeContext n) name d)"
  by (simp add: puter_node_validate_def)

text \<open>The root under a service that grants everything and under one that grants nothing.\<close>

theorem puter_node_validate_root_witness:
  "puter_node_validate (sample_ctx True) (FSNodeContext root_node) ''target'' no_constraints =
     ([], Returns (ErrorObj (APIError ''forbidden'' [])))
   \<and> puter_node_validate (sample_ctx False) (FSNodeContext root_node) ''target'' no_constraints =
     ([], Returns (ErrorObj (APIError ''forbidden'' [])))"
proof -
  have root: "node_path root_node = ''/''"
    by (simp add: root_node_def)
  from puter_node_validate_root [OF root, of "sample_ctx True" "''target''" no_constraints "sample_ctx False"]
  have "puter_node_validate (sample_ctx True) (FSNodeContext root_node) ''target'' no_constraints =
          ([], Returns (ErrorObj (APIError ''forbidden'' [])))"
    and "puter_node_validate (sample_ctx True) (FSNodeContext root_node) ''target'' no_constraints =
          puter_node_validate (sample_ctx False) (FSNodeContext root_node) ''target'' no_constraints"
    by blast+
  then show ?thesis by simp
qed

text \<open>
  Away from the root the answer of the service decides: the same two services on the node
  \<^verbatim>\<open>/alice\<close> give nothing (valid) and the service's safe error.
\<close>

lemma puter_node_validate_elsewhere:
  "puter_node_validate (sample_ctx True) (FSNodeContext (root_node\<lparr>node_path := ''/alice''\<rparr>))
      ''target'' no_constraints
     = ([CheckCall (Some (Actor ''alice'')) (FSNodeContext (root_node\<lparr>node_path := ''/alice''\<rparr>)) ''see''],
        Returns Undefined)
   \<and> puter_node_validate (sample_ctx False) (FSNodeContext (root_node\<lparr>node_path := ''/alice''\<rparr>))
      ''target'' no_constraints
     = ([CheckCall (Some (Actor ''alice'')) (FSNodeContext (root_node\<lparr>node_path := ''/alice''\<rparr>)) ''see'',
         SafeErrorCall (Some (Actor ''alice'')) (FSNodeContext (root_node\<lparr>node_path := ''/alice''\<rparr>)) ''see''],
        Returns (ErrorObj (APIError ''subject_does_not_exist'' [])))"
  by (simp add: puter_node_validate_def sample_ctx_def sample_services_def sample_acl_def
      root_node_def no_constraints_def)

section \<open>puter-node.adapt\<close>

text \<open>
  C10. A value that is not null, not a node and not a string makes \<^verbatim>\<open>puter-node.adapt\<close>
  return \<^verbatim>\<open>undefined\<close>: no service is called and nothing is thrown.
\<close>

theorem puter_node_adapt_other_types:
  "v \<noteq> Null \<Longrightarrow> (\<forall>n. v \<noteq> FSNodeContext n) \<Longrightarrow> (\<forall>s. v \<noteq> Str s) \<Longrightarrow>
     puter_node_adapt h c v name = ([], Returns Undefined)"
  by (cases v) (simp_all add: puter_node_adapt_def)

text \<open>A number and a plain object.\<close>

theorem puter_node_adapt_other_types_witness:
  "puter_node_adapt sample_helpers (sample_ctx True) (Num 42) ''target'' = ([], Returns Undefined)
   \<and> puter_node_adapt sample_helpers (sample_ctx True) (Obj [(''path'', Str ''/alice'')]) ''target'' =
        ([], Returns Undefined)"
  using puter_node_adapt_other_types [of "Num 42" sample_helpers "sample_ctx True" "''target''"]
        puter_node_adapt_other_types [of "Obj [(''path'', Str ''/alice'')]" sample_helpers "sample_ctx True" "''target''"]
  by simp

text \<open>
  A string that begins with \<^verbatim>\<open>/\<close>, \<^verbatim>\<open>.\<close> or \<^verbatim>\<open>~\<close> and whose (expanded) path
  \<^verbatim>\<open>is_valid_path\<close> refuses is rejected with \<^verbatim>\<open>field_invalid\<close> before any lookup.
\<close>

lemma puter_node_adapt_bad_path:
  "first_char_in s ''/.~'' \<Longrightarrow> expand_home c s = Returns p \<Longrightarrow> \<not> is_valid_path h p \<Longrightarrow>
     puter_node_adapt h c (Str s) name =
       ([], Throws (APIError ''field_invalid''
              [(''key'', PStr name), (''expected'', PStr ''unix-style path or UUID'')]))"
  by (simp add: puter_node_adapt_def)

text \<open>
  C3. A string that begins with none of \<^verbatim>\<open>/\<close>, \<^verbatim>\<open>.\<close>, \<^verbatim>\<open>~\<close> and is not a version 4
  UUID is not rejected: \<^verbatim>\<open>selector\<close> stays undefined, the filesystem service is called
  with it, and the outcome of \<^verbatim>\<open>adapt\<close> is the outcome of that call.
\<close>

theorem puter_node_adapt_unrecognised:
  "\<not> first_char_in s ''/.~'' \<Longrightarrow> \<not> is_valid_uuid4 h s \<Longrightarrow>
   ctx_services c ''filesystem'' = Some (FilesystemService node) \<Longrightarrow>
     puter_node_adapt h c (Str s) name = ([NodeCall None], node None)"
  by (simp add: puter_node_adapt_def svc_fs_node_def)

text \<open>The string \<^verbatim>\<open>foo\<close> reaches the sample filesystem service with no selector.\<close>

theorem puter_node_adapt_unrecognised_witness:
  "puter_node_adapt sample_helpers (sample_ctx True) (Str ''foo'') ''target'' =
     ([NodeCall None], Throws (Error ''no selector''))"
  using puter_node_adapt_unrecognised [of "''foo''" sample_helpers "sample_ctx True" sample_fs_node "''target''"]
  by (simp add: sample_helpers_def sample_ctx_def sample_services_def)

text \<open>
  The home directory: for the string \<^verbatim>\<open>~\<close> and for a string that begins with \<^verbatim>\<open>~/\<close>,
  when the user's name has no \<^verbatim>\<open>/\<close> and \<^verbatim>\<open>is_valid_path\<close> accepts the expanded path,
  that path is looked up through the by-path selector, once, and its first segment is the
  user's name.
\<close>

lemma puter_node_adapt_home_dir:
  assumes shape: "rest = [] \<or> hd rest = CHR ''/''"
    and usr: "ctx_user c = Some u"
    and plain: "CHR ''/'' \<notin> set (username u)"
    and valid: "is_valid_path h (''/'' @ username u @ rest)"
    and fs: "ctx_services c ''filesystem'' = Some (FilesystemService node)"
  shows "puter_node_adapt h c (Str (''~'' @ rest)) name =
           ([NodeCall (Some (NodePathSelector (''/'' @ username u @ rest)))],
            node (Some (NodePathSelector (''/'' @ username u @ rest))))
         \<and> first_segment (''/'' @ username u @ rest) = username u"
proof -
  have tilde: "startsWith (''~'' @ rest) ''~''"
    by (rule startsWith_append)
  have all: "\<forall>ch \<in> set (username u). ch \<noteq> CHR ''/''"
    using plain by blast
  have stop: "takeWhile (\<lambda>ch. ch \<noteq> CHR ''/'') rest = []"
    using shape by (cases rest) simp_all
  have "takeWhile (\<lambda>ch. ch \<noteq> CHR ''/'') (username u @ rest) = username u"
    using all stop by simp
  then have seg: "first_segment (''/'' @ username u @ rest) = username u"
    by (simp add: first_segment_def)
  show ?thesis
    using tilde seg usr valid fs
    by (simp add: puter_node_adapt_def expand_home_def svc_fs_node_def)
qed

text \<open>Without a user in the context, a string that begins with \<^verbatim>\<open>~\<close> makes the call throw.\<close>

lemma puter_node_adapt_home_no_user:
  assumes "ctx_user c = None"
  shows "puter_node_adapt h c (Str (''~'' @ rest)) name =
           ([], Throws (Error ''Cannot use ~ without a user''))"
proof -
  have "startsWith (''~'' @ rest) ''~''"
    by (rule startsWith_append)
  with assms show ?thesis
    by (simp add: puter_node_adapt_def expand_home_def)
qed

text \<open>
  \<^verbatim>\<open>~/docs\<close> for the user alice is looked up as \<^verbatim>\<open>/alice/docs\<close>; without a user the
  call throws.
\<close>

lemma puter_node_adapt_home_docs:
  "puter_node_adapt sample_helpers (sample_ctx True) (Str ''~/docs'') ''target'' =
     ([NodeCall (Some (NodePathSelector ''/alice/docs''))],
      Returns (FSNodeContext \<lparr> node_uid = ''n-1'', node_mysql_id = Some 1, node_path = ''/alice/docs'' \<rparr>))
   \<and> first_segment ''/alice/docs'' = ''alice''
   \<and> puter_node_adapt sample_helpers ((sample_ctx True)\<lparr>ctx_user := None\<rparr>) (Str ''~/docs'') ''target'' =
     ([], Throws (Error ''Cannot use ~ without a user''))"
  using puter_node_adapt_home_dir [of "''/docs''" "sample_ctx True" "\<lparr> username = ''alice'' \<rparr>"
          sample_helpers sample_fs_node "''target''"]
        puter_node_adapt_home_no_user [of "(sample_ctx True)\<lparr>ctx_user := None\<rparr>"
          sample_helpers "''/docs''" "''target''"]
  by (simp add: sample_helpers_def sample_ctx_def sample_services_def)

text \<open>
  C7. A string that begins with \<^verbatim>\<open>~\<close> is to be expanded to a path whose first segment is
  the user's name. The source replaces the first character by \<^verbatim>\<open>/\<close> and the name, with
  no look at what follows: \<^verbatim>\<open>~foo\<close> for the user alice is looked up as \<^verbatim>\<open>/alicefoo\<close>,
  whose first segment is \<^verbatim>\<open>alicefoo\<close>, the very lookup that \<^verbatim>\<open>~\<close> gives for a user
  named alicefoo.
\<close>

theorem puter_node_adapt_home_evaluated:
  "puter_node_adapt sample_helpers (sample_ctx True) (Str ''~foo'') ''target'' =
     ([NodeCall (Some (NodePathSelector ''/alicefoo''))],
      Returns (FSNodeContext \<lparr> node_uid = ''n-1'', node_mysql_id = Some 1, node_path = ''/alicefoo'' \<rparr>))
   \<and> ctx_user (sample_ctx True) = Some \<lparr> username = ''alice'' \<rparr>
   \<and> first_segment ''/alicefoo'' = ''alicefoo''
   \<and> puter_node_adapt sample_helpers ((sample_ctx True)\<lparr>ctx_user := Some \<lparr> username = ''alicefoo'' \<rparr>\<rparr>)
        (Str ''~'') ''target'' =
     ([NodeCall (Some (NodePathSelector ''/alicefoo''))],
      Returns (FSNodeContext \<lparr> node_uid = ''n-1'', node_mysql_id = Some 1, node_path = ''/alicefoo'' \<rparr>))"
  by (simp add: puter_node_adapt_def expand_home_def svc_fs_node_def startsWith_def first_segment_def
      sample_helpers_def sample_ctx_def sample_services_def)

end
